theory Spec2Isabelle
  imports
    Main
    "HOL-Library.Sublist"
    "HOL-Library.Multiset"
    "HOL-Library.Char_ord"
    "HOL-Library.List_Lexorder"
begin

section \<open>Eblu: Bluetooth device list, search and lifecycle\<close>

text \<open>
  A shallow embedding of the Raycast command \<^verbatim>\<open>Command\<close> (the fuller of the two
  near-identical sources): its React state cells become one record, its event handlers
  become functions from the state to the next state, and everything the handlers do to
  the outside (external commands, toasts, console output, timers) is appended to an
  effect trace kept in the state. What the outside answers (the output of an external
  command, the clock) is an argument of the handler.

  Strings are lists of 8-bit characters; \<^verbatim>\<open>toLowerCase\<close> is modelled on the ASCII
  letters. Values follow the TypeScript interfaces of the source, with every field that
  can be missing at run time an \<open>option\<close> (\<open>None\<close> is JavaScript's \<^verbatim>\<open>undefined\<close>).
  The platform's \<^verbatim>\<open>String.prototype.localeCompare\<close> is a parameter of the handlers
  that sort.
\<close>

subsection \<open>JavaScript strings\<close>

definition lower_char :: "char \<Rightarrow> char" where
  "lower_char c =
     (if CHR ''A'' \<le> c \<and> c \<le> CHR ''Z'' then char_of (of_char c + (32::nat)) else c)"

definition toLowerCase :: "string \<Rightarrow> string" where
  "toLowerCase s = map lower_char s"

text \<open>\<^verbatim>\<open>s.split(sep)\<close> for a separator of one character: the pieces between the
  separators, empty pieces included; the empty string gives one empty piece.\<close>

fun split_on :: "char \<Rightarrow> string \<Rightarrow> string list" where
  "split_on sep [] = [[]]"
| "split_on sep (c # cs) =
     (if c = sep then [] # split_on sep cs
      else (case split_on sep cs of
              [] \<Rightarrow> [[c]]
            | piece # pieces \<Rightarrow> (c # piece) # pieces))"

text \<open>\<^verbatim>\<open>v || d\<close> on an optional string: \<^verbatim>\<open>undefined\<close> and the empty string are falsy.\<close>

definition or_else :: "string option \<Rightarrow> string \<Rightarrow> string" where
  "or_else v d = (case v of None \<Rightarrow> d | Some s \<Rightarrow> if s = [] then d else s)"

text \<open>A value inside a template literal: \<^verbatim>\<open>undefined\<close> prints as its name.\<close>

definition template :: "string option \<Rightarrow> string" where
  "template v = (case v of None \<Rightarrow> ''undefined'' | Some s \<Rightarrow> s)"

text \<open>Decimal rendering of an integer (\<^verbatim>\<open>Number.prototype.toString\<close> on the integers
  below \<open>10^21\<close> in magnitude).\<close>

fun digits :: "nat \<Rightarrow> string" where
  "digits n =
     (if n < 10 then [char_of (48 + n)]
      else digits (n div 10) @ [char_of (48 + n mod 10)])"

declare digits.simps [simp del]

definition number_toString :: "int \<Rightarrow> string" where
  "number_toString i = (if i < 0 then CHR ''-'' # digits (nat (- i)) else digits (nat i))"

subsection \<open>Data model\<close>

record BluetoothDevice =
  name :: string
  address :: "string option"
  connected :: bool
  lastConnected :: "nat option"
  type :: "string option"
  batteryLevel :: "string option"
  rssi :: "string option"
  vendorId :: "string option"
  productId :: "string option"
  firmwareVersion :: "string option"

text \<open>The value stored under the device name in a record of the paired snapshot. The
  interface declares \<^verbatim>\<open>device_address\<close> as required; the source never checks it, so
  the model admits a record without one.\<close>

record RawDeviceData =
  device_address :: "string option"
  device_minorType :: "string option"
  device_batteryLevelMain :: "string option"
  device_rssi :: "string option"
  device_vendorID :: "string option"
  device_productID :: "string option"
  device_firmwareVersion :: "string option"

text \<open>\<^verbatim>\<open>RawBluetoothDeviceData\<close>: an object keyed by device name, given as its entries in
  the order \<^verbatim>\<open>Object.keys\<close> lists them. The value of an entry is \<open>None\<close> when it is
  the JSON value \<^verbatim>\<open>null\<close>, whose fields cannot be read; a value that is a number, a
  string or a boolean reads as an object without fields. An element of a group that has
  no key at all (the empty object, but also \<^verbatim>\<open>null\<close>, a number, a boolean) is the
  empty list of entries: reading its first entry raises in each case.\<close>

type_synonym RawBluetoothDeviceData = "(string \<times> RawDeviceData option) list"

record SPBluetoothEntry =
  device_connected :: "RawBluetoothDeviceData list option"
  device_not_connected :: "RawBluetoothDeviceData list option"

text \<open>The parsed document of the paired snapshot: \<open>None\<close> is the JSON value
  \<^verbatim>\<open>null\<close>, otherwise an object whose key \<^verbatim>\<open>SPBluetoothDataType\<close> may be missing
  (or \<^verbatim>\<open>null\<close>: indexing it raises alike). A group that is missing or \<^verbatim>\<open>null\<close> is
  \<open>None\<close>; an element of \<^verbatim>\<open>SPBluetoothDataType\<close> that is \<^verbatim>\<open>null\<close> reads as one
  with both groups missing.\<close>

record SystemProfilerData =
  SPBluetoothDataType :: "SPBluetoothEntry list option"

text \<open>One record of the discovery scan.\<close>

datatype InquiryDevice =
  InquiryDevice (inq_address: "string option") (inq_name: "string option") (inq_rssi: "int option")

text \<open>What \<^verbatim>\<open>JSON.parse(execSync(cmd).toString())\<close> comes to: the command fails, its
  output is not JSON, or a document.\<close>

datatype 'a fetched = ExecFailed | ParseFailed | Parsed 'a

datatype js_error = Error string | TypeError | SyntaxError | ExecError

datatype toast_style = Animated | Success | Failure

datatype effect =
  ExecSync string
| ShowToast toast_style string
| ConsoleError string js_error
| SetTimeout_refreshDevices nat
| ConsoleErrorMessage string
| ConfirmAlert string string

subsection \<open>Fuzzy search\<close>

function fuzzyMatch_loop :: "string \<Rightarrow> string \<Rightarrow> nat \<Rightarrow> nat \<Rightarrow> nat" where
  "fuzzyMatch_loop text pattern i j =
     (if i < length text \<and> j < length pattern
      then fuzzyMatch_loop text pattern (i + 1) (if text ! i = pattern ! j then j + 1 else j)
      else j)"
  by pat_completeness auto
termination
  by (relation "measure (\<lambda>(t, p, i, j). length t - i)") auto

declare fuzzyMatch_loop.simps [simp del]

definition fuzzyMatch :: "string \<Rightarrow> string \<Rightarrow> bool" where
  "fuzzyMatch text pattern = (fuzzyMatch_loop text pattern 0 0 = length pattern)"

definition fuzzySearch :: "BluetoothDevice \<Rightarrow> string \<Rightarrow> bool" where
  "fuzzySearch device searchText =
     (let searchLower = toLowerCase searchText;
          nameLower = toLowerCase (name device);
          typeLower = toLowerCase (or_else (type device) '''');
          searchTerms = split_on CHR '' '' searchLower
      in list_all (\<lambda>tm.
           let matchesName = fuzzyMatch nameLower tm;
               matchesType = fuzzyMatch typeLower tm
           in matchesName \<or> matchesType) searchTerms)"

subsection \<open>The state of the command\<close>

record CommandState =
  allDevices :: "BluetoothDevice list"
  searchText :: string
  blueutilPath :: string
  isScanning :: bool
  discoveredDevices :: "BluetoothDevice list"
  effects :: "effect list"

text \<open>The state at the first render: the initial values of the state cells, and
  nothing done yet.\<close>

definition initial :: CommandState where
  "initial =
     \<lparr>allDevices = [], searchText = [], blueutilPath = [], isScanning = False,
      discoveredDevices = [], effects = []\<rparr>"

subsection \<open>Refreshing the known devices\<close>

text \<open>\<^verbatim>\<open>Array.prototype.sort\<close> with a comparison function is stable; for a consistent
  comparison function its result is the one a stable insertion sort computes.\<close>

fun insert_by :: "('a \<Rightarrow> 'a \<Rightarrow> int) \<Rightarrow> 'a \<Rightarrow> 'a list \<Rightarrow> 'a list" where
  "insert_by cmp x [] = [x]"
| "insert_by cmp x (y # ys) = (if cmp x y \<le> 0 then x # y # ys else y # insert_by cmp x ys)"

definition array_sort :: "('a \<Rightarrow> 'a \<Rightarrow> int) \<Rightarrow> 'a list \<Rightarrow> 'a list" where
  "array_sort cmp xs = foldr (insert_by cmp) xs []"

text \<open>ECMAScript requires \<^verbatim>\<open>localeCompare\<close> to be a consistent comparison function
  that orders all strings totally, and leaves the order itself to the host. This is what
  the model assumes of the parameter where the order matters.\<close>

definition consistent :: "('a \<Rightarrow> 'a \<Rightarrow> int) \<Rightarrow> bool" where
  "consistent cmp =
     ((\<forall>a b. (cmp a b < 0) = (0 < cmp b a))
      \<and> (\<forall>a b c. cmp a b \<le> 0 \<and> cmp b c \<le> 0 \<longrightarrow> cmp a c \<le> 0))"

text \<open>The comparison function handed to \<^verbatim>\<open>sort\<close>. The platform's
  \<^verbatim>\<open>String.prototype.localeCompare\<close> is a parameter.\<close>

definition compareDevices ::
  "(string \<Rightarrow> string \<Rightarrow> int) \<Rightarrow> BluetoothDevice \<Rightarrow> BluetoothDevice \<Rightarrow> int" where
  "compareDevices localeCompare a b =
     (if connected a \<noteq> connected b then (if connected a then - 1 else 1)
      else localeCompare (name a) (name b))"

text \<open>The two callbacks of \<^verbatim>\<open>map\<close>. A record without any key has no first name;
  reading \<^verbatim>\<open>device_address\<close> of the missing value raises a \<^verbatim>\<open>TypeError\<close>, and
  so does reading it of a first entry that is \<^verbatim>\<open>null\<close>.\<close>

definition connectedDevice :: "nat \<Rightarrow> RawBluetoothDeviceData \<Rightarrow> js_error + BluetoothDevice" where
  "connectedDevice now device =
     (case device of
        [] \<Rightarrow> Inl TypeError
      | (nm, None) # _ \<Rightarrow> Inl TypeError
      | (nm, Some deviceData) # _ \<Rightarrow>
          Inr \<lparr>name = nm,
               address = device_address deviceData,
               connected = True,
               lastConnected = Some now,
               type = device_minorType deviceData,
               batteryLevel = device_batteryLevelMain deviceData,
               rssi = device_rssi deviceData,
               vendorId = device_vendorID deviceData,
               productId = device_productID deviceData,
               firmwareVersion = device_firmwareVersion deviceData\<rparr>)"

definition disconnectedDevice :: "RawBluetoothDeviceData \<Rightarrow> js_error + BluetoothDevice" where
  "disconnectedDevice device =
     (case device of
        [] \<Rightarrow> Inl TypeError
      | (nm, None) # _ \<Rightarrow> Inl TypeError
      | (nm, Some deviceData) # _ \<Rightarrow>
          Inr \<lparr>name = nm,
               address = device_address deviceData,
               connected = False,
               lastConnected = None,
               type = device_minorType deviceData,
               batteryLevel = device_batteryLevelMain deviceData,
               rssi = device_rssi deviceData,
               vendorId = device_vendorID deviceData,
               productId = device_productID deviceData,
               firmwareVersion = device_firmwareVersion deviceData\<rparr>)"

text \<open>\<^verbatim>\<open>xs.map(f)\<close> where \<open>f\<close> may throw: the first exception ends the whole map.\<close>

fun map_throwing :: "('a \<Rightarrow> js_error + 'b) \<Rightarrow> 'a list \<Rightarrow> js_error + 'b list" where
  "map_throwing f [] = Inr []"
| "map_throwing f (x # xs) =
     (case f x of
        Inl e \<Rightarrow> Inl e
      | Inr y \<Rightarrow> (case map_throwing f xs of Inl e \<Rightarrow> Inl e | Inr ys \<Rightarrow> Inr (y # ys)))"

text \<open>\<^verbatim>\<open>data?.SPBluetoothDataType[0]?.group || []\<close>: a \<^verbatim>\<open>null\<close> document
  short-circuits the whole chain; indexing a missing \<^verbatim>\<open>SPBluetoothDataType\<close> raises;
  a missing first entry or a missing group gives the empty list.\<close>

definition device_group ::
  "(SPBluetoothEntry \<Rightarrow> RawBluetoothDeviceData list option) \<Rightarrow> SystemProfilerData option
     \<Rightarrow> js_error + RawBluetoothDeviceData list" where
  "device_group grp data =
     (case data of
        None \<Rightarrow> Inr []
      | Some d \<Rightarrow>
          (case SPBluetoothDataType d of
             None \<Rightarrow> Inl TypeError
           | Some [] \<Rightarrow> Inr []
           | Some (entry # _) \<Rightarrow> Inr (case grp entry of None \<Rightarrow> [] | Some g \<Rightarrow> g)))"

text \<open>The body of the \<^verbatim>\<open>try\<close> block up to the unsorted list \<^verbatim>\<open>allDevices\<close>.\<close>

definition readDevices ::
  "nat \<Rightarrow> SystemProfilerData option fetched \<Rightarrow> js_error + BluetoothDevice list" where
  "readDevices now output =
     (case output of
        ExecFailed \<Rightarrow> Inl ExecError
      | ParseFailed \<Rightarrow> Inl SyntaxError
      | Parsed data \<Rightarrow>
          (case device_group device_connected data of
             Inl e \<Rightarrow> Inl e
           | Inr connectedDevices \<Rightarrow>
          (case device_group device_not_connected data of
             Inl e \<Rightarrow> Inl e
           | Inr disconnectedDevices \<Rightarrow>
          (case map_throwing (connectedDevice now) connectedDevices of
             Inl e \<Rightarrow> Inl e
           | Inr cs \<Rightarrow>
          (case map_throwing disconnectedDevice disconnectedDevices of
             Inl e \<Rightarrow> Inl e
           | Inr ds \<Rightarrow> Inr (cs @ ds))))))"

definition system_profiler :: string where
  "system_profiler = ''/usr/sbin/system_profiler SPBluetoothDataType -json''"

definition refreshDevices ::
  "(string \<Rightarrow> string \<Rightarrow> int) \<Rightarrow> nat \<Rightarrow> SystemProfilerData option fetched
     \<Rightarrow> CommandState \<Rightarrow> CommandState" where
  "refreshDevices localeCompare now output st =
     (let st1 = st\<lparr>effects := effects st @ [ExecSync system_profiler]\<rparr>
      in case readDevices now output of
           Inr devs \<Rightarrow>
             (let sortedDevices = array_sort (compareDevices localeCompare) devs
              in st1\<lparr>allDevices := sortedDevices\<rparr>)
         | Inl error \<Rightarrow>
             st1\<lparr>effects := effects st1 @ [ConsoleError ''Error fetching bluetooth devices:'' error]\<rparr>)"

subsection \<open>The displayed devices\<close>

text \<open>\<^verbatim>\<open>xs.slice(start, end)\<close>: a negative index counts from the end of the array.\<close>

definition slice :: "'a list \<Rightarrow> int \<Rightarrow> int \<Rightarrow> 'a list" where
  "slice xs start fin =
     (let len = int (length xs);
          k = (if start < 0 then max (len + start) 0 else min start len);
          final = (if fin < 0 then max (len + fin) 0 else min fin len)
      in take (nat (final - k)) (drop (nat k) xs))"

definition filteredDevices :: "int \<Rightarrow> CommandState \<Rightarrow> BluetoothDevice list" where
  "filteredDevices maxDevices st =
     (if searchText st \<noteq> []
      then filter (\<lambda>device. fuzzySearch device (searchText st)) (allDevices st)
      else slice (allDevices st) 0 maxDevices)"

text \<open>The preference \<^verbatim>\<open>maxDevices\<close> as the manifest declares it: its default and
  the bounds of its range. The source reads the preference as a number and does not
  check the range.\<close>

definition maxDevices_default :: int where "maxDevices_default = 5"
definition maxDevices_minimum :: int where "maxDevices_minimum = 1"
definition maxDevices_maximum :: int where "maxDevices_maximum = 20"

subsection \<open>Connecting and disconnecting\<close>

text \<open>\<open>succeeds\<close> says whether \<^verbatim>\<open>execSync\<close> returns (or throws).\<close>

definition toggleConnection ::
  "string option \<Rightarrow> bool \<Rightarrow> bool \<Rightarrow> CommandState \<Rightarrow> CommandState" where
  "toggleConnection addr isConnected succeeds st =
     (if blueutilPath st = [] then
        st\<lparr>effects := effects st @
             [ConsoleError ''Error toggling connection:'' (Error ''blueutil path not set'')]\<rparr>
      else
        (let action = (if isConnected then ''--disconnect'' else ''--connect'');
             st1 = st\<lparr>effects := effects st @
                     [ExecSync (blueutilPath st @ '' '' @ action @ '' '' @ template addr)]\<rparr>
         in if succeeds
            then st1\<lparr>effects := effects st1 @ [SetTimeout_refreshDevices 1000]\<rparr>
            else st1\<lparr>effects := effects st1 @
                       [ConsoleError ''Error toggling connection:'' ExecError]\<rparr>))"

subsection \<open>Discovery\<close>

definition discoveredDevice :: "InquiryDevice \<Rightarrow> BluetoothDevice" where
  "discoveredDevice device =
     \<lparr>name = or_else (inq_name device) ''Unknown Device'',
      address = inq_address device,
      connected = False,
      lastConnected = None,
      type = Some ''New Device'',
      batteryLevel = None,
      rssi = map_option number_toString (inq_rssi device),
      vendorId = None,
      productId = None,
      firmwareVersion = None\<rparr>"

definition scan_failed :: "js_error \<Rightarrow> CommandState \<Rightarrow> CommandState" where
  "scan_failed error st =
     st\<lparr>isScanning := False,
        effects := effects st @
          [ShowToast Failure ''Failed to scan for devices'', ConsoleError ''Discovery error:'' error]\<rparr>"

definition startDiscovery :: "InquiryDevice list fetched \<Rightarrow> CommandState \<Rightarrow> CommandState" where
  "startDiscovery output st =
     (if blueutilPath st = [] then scan_failed (Error ''blueutil not found'') st
      else
        (let st1 = st\<lparr>isScanning := True,
                       effects := effects st @ [ShowToast Animated ''Scanning for devices...'']\<rparr>;
             existingAddresses = map address (allDevices st);
             st2 = st1\<lparr>effects := effects st1 @
                      [ExecSync (blueutilPath st @ '' --inquiry 10 --format json'')]\<rparr>
         in case output of
              ExecFailed \<Rightarrow> scan_failed ExecError st2
            | ParseFailed \<Rightarrow> scan_failed SyntaxError st2
            | Parsed devices \<Rightarrow>
                (let discovered =
                       map discoveredDevice
                         (filter (\<lambda>device. inq_address device \<notin> set existingAddresses) devices)
                 in st2\<lparr>discoveredDevices := discovered,
                        isScanning := False,
                        effects := effects st2 @
                          [ShowToast Success
                             (''Found '' @ number_toString (int (length discovered)) @ '' new devices'')]\<rparr>)))"

subsection \<open>Start-up, forgetting and pairing\<close>

text \<open>The effect that runs once after the first render. \<open>located\<close> is the trimmed
  output of \<^verbatim>\<open>command -v blueutil\<close>, or \<open>None\<close> when the command fails.\<close>

definition blueutil_missing :: string where
  "blueutil_missing = ''Error: blueutil not found. Install with: brew install blueutil''"

definition startup ::
  "string option \<Rightarrow> (string \<Rightarrow> string \<Rightarrow> int) \<Rightarrow> nat \<Rightarrow> SystemProfilerData option fetched
     \<Rightarrow> CommandState \<Rightarrow> CommandState" where
  "startup located localeCompare now output st =
     (let st1 = st\<lparr>effects := effects st @ [ExecSync ''command -v blueutil'']\<rparr>
      in case located of
           None \<Rightarrow> st1\<lparr>effects := effects st1 @ [ConsoleErrorMessage blueutil_missing]\<rparr>
         | Some path \<Rightarrow>
             if path = []
             then st1\<lparr>effects := effects st1 @ [ConsoleErrorMessage blueutil_missing]\<rparr>
             else refreshDevices localeCompare now output (st1\<lparr>blueutilPath := path\<rparr>))"

text \<open>\<^verbatim>\<open>forgetDevice\<close> awaits the confirmation, so other handlers can run between the
  question and the answer: it is two steps.\<close>

definition forgetDevice_ask :: "string \<Rightarrow> CommandState \<Rightarrow> CommandState" where
  "forgetDevice_ask nm st =
     st\<lparr>effects := effects st @
          [ConfirmAlert ''Forget Device''
             (''Are you sure you want to forget '' @ [CHR 0x22] @ nm @ [CHR 0x22] @ ''?'')]\<rparr>"

definition forgetDevice_answer ::
  "string option \<Rightarrow> bool \<Rightarrow> bool \<Rightarrow> (string \<Rightarrow> string \<Rightarrow> int) \<Rightarrow> nat
     \<Rightarrow> SystemProfilerData option fetched \<Rightarrow> CommandState \<Rightarrow> CommandState" where
  "forgetDevice_answer addr confirmed succeeds localeCompare now output st =
     (if \<not> confirmed then st
      else
        (let st1 = st\<lparr>effects := effects st @
                     [ExecSync (''blueutil --unpair '' @ template addr)]\<rparr>
         in if succeeds
            then refreshDevices localeCompare now output
                   (st1\<lparr>effects := effects st1 @ [ShowToast Success ''Device forgotten'']\<rparr>)
            else st1\<lparr>effects := effects st1 @
                       [ShowToast Failure ''Failed to forget device'']\<rparr>))"

text \<open>\<^verbatim>\<open>pairDevice\<close> awaits the plain result of \<^verbatim>\<open>refreshDevices\<close>, which resumes
  before any other handler can run: it is one step.\<close>

definition pairDevice ::
  "string option \<Rightarrow> string \<Rightarrow> bool \<Rightarrow> (string \<Rightarrow> string \<Rightarrow> int) \<Rightarrow> nat
     \<Rightarrow> SystemProfilerData option fetched \<Rightarrow> CommandState \<Rightarrow> CommandState" where
  "pairDevice addr nm succeeds localeCompare now output st =
     (let st1 = st\<lparr>effects := effects st @
                  [ShowToast Animated (''Pairing with '' @ nm @ ''...''),
                   ExecSync (blueutilPath st @ '' --pair '' @ template addr)]\<rparr>
      in if succeeds
         then
           (let st2 = refreshDevices localeCompare now output st1;
                st3 = st2\<lparr>discoveredDevices :=
                        filter (\<lambda>d. address d \<noteq> addr) (discoveredDevices st2)\<rparr>
            in st3\<lparr>effects := effects st3 @ [ShowToast Success (''Paired with '' @ nm)]\<rparr>)
         else st1\<lparr>effects := effects st1 @
                    [ShowToast Failure (''Failed to pair with '' @ nm)]\<rparr>)"

subsection \<open>The states of a run\<close>

text \<open>The states the command is in between two handlers: the initial state, the state
  after the start-up effect, and every state a handler (or the search bar) makes of
  one of these.\<close>

inductive reachable :: "CommandState \<Rightarrow> bool" where
  mounted: "reachable initial"
| started: "reachable (startup located localeCompare now output initial)"
| refreshed: "reachable st \<Longrightarrow> reachable (refreshDevices localeCompare now output st)"
| searched: "reachable st \<Longrightarrow> reachable (st\<lparr>searchText := q\<rparr>)"
| toggled: "reachable st \<Longrightarrow> reachable (toggleConnection addr isConnected succeeds st)"
| asked: "reachable st \<Longrightarrow> reachable (forgetDevice_ask nm st)"
| answered:
    "reachable st \<Longrightarrow>
     reachable (forgetDevice_answer addr confirmed succeeds localeCompare now output st)"
| discovered: "reachable st \<Longrightarrow> reachable (startDiscovery output st)"
| paired_with: "reachable st \<Longrightarrow> reachable (pairDevice addr nm succeeds localeCompare now output st)"

subsection \<open>The rendered list\<close>

datatype ListItem =
  ListItem (item_key: "string option") (item_title: string) (item_subtitle: string)
    (item_accessory: "string option")

datatype ListSection = ListSection (section_title: string) (section_items: "ListItem list")

definition truthy :: "string option \<Rightarrow> bool" where
  "truthy v = (case v of None \<Rightarrow> False | Some s \<Rightarrow> s \<noteq> [])"

definition bullet :: string where
  "bullet = '' '' @ [char_of (0xE2::nat), char_of (0x80::nat), char_of (0xA2::nat)] @ '' ''"

fun join :: "string \<Rightarrow> string list \<Rightarrow> string" where
  "join sep [] = []"
| "join sep [x] = x"
| "join sep (x # y # ys) = x @ sep @ join sep (y # ys)"

definition discoveredItem :: "BluetoothDevice \<Rightarrow> ListItem" where
  "discoveredItem device =
     ListItem (address device) (name device) ''Available to pair''
       (if truthy (rssi device) then Some (''Signal: '' @ template (rssi device) @ ''dBm'') else None)"

definition pairedItem :: "BluetoothDevice \<Rightarrow> ListItem" where
  "pairedItem device =
     ListItem (address device) (name device) (or_else (type device) ''Unknown Device'')
       (Some (join bullet (map the (filter truthy
          [Some (if connected device then ''Connected'' else ''Disconnected''),
           if truthy (batteryLevel device)
             then Some (''Battery: '' @ template (batteryLevel device)) else None,
           if truthy (rssi device)
             then Some (''Signal: '' @ template (rssi device) @ ''dBm'') else None,
           if truthy (firmwareVersion device)
             then Some (''FW: '' @ template (firmwareVersion device)) else None]))))"

definition Command :: "int \<Rightarrow> CommandState \<Rightarrow> ListSection list" where
  "Command maxDevices st =
     (if length (discoveredDevices st) > 0
      then [ListSection ''Discovered Devices'' (map discoveredItem (discoveredDevices st))]
      else [])
     @ [ListSection ''Paired Devices'' (map pairedItem (filteredDevices maxDevices st))]"

subsection \<open>Observations used in the statements\<close>

text \<open>The name and the address a raw record carries under its first key.\<close>

definition entry_name :: "RawBluetoothDeviceData \<Rightarrow> string" where
  "entry_name device = (case device of [] \<Rightarrow> [] | (nm, deviceData) # _ \<Rightarrow> nm)"

definition entry_address :: "RawBluetoothDeviceData \<Rightarrow> string option" where
  "entry_address device =
     (case device of
        [] \<Rightarrow> None
      | (nm, None) # _ \<Rightarrow> None
      | (nm, Some deviceData) # _ \<Rightarrow> device_address deviceData)"

text \<open>A raw record can be read when it has a first entry and that entry is not
  \<^verbatim>\<open>null\<close>.\<close>

definition readable :: "RawBluetoothDeviceData \<Rightarrow> bool" where
  "readable device =
     (case device of [] \<Rightarrow> False | (nm, None) # _ \<Rightarrow> False | (nm, Some deviceData) # _ \<Rightarrow> True)"

text \<open>A document with both groups present.\<close>

definition snapshot ::
  "RawBluetoothDeviceData list \<Rightarrow> RawBluetoothDeviceData list \<Rightarrow> SystemProfilerData option" where
  "snapshot cs ds =
     Some \<lparr>SPBluetoothDataType =
       Some [\<lparr>device_connected = Some cs, device_not_connected = Some ds\<rparr>]\<rparr>"

text \<open>A comparison of names by their lowercased characters, used as the comparison
  function in examples where the order of the names plays no part.\<close>

definition ci_compare :: "string \<Rightarrow> string \<Rightarrow> int" where
  "ci_compare a b =
     (if toLowerCase a < toLowerCase b then - 1
      else if toLowerCase a = toLowerCase b then 0 else 1)"

text \<open>A consistent comparison function in the manner of the host's collation, an
  instance of the parameter for the examples in which the order of the names matters:
  the space sorts first, then the underscore, the hyphen, the digits and the letters;
  the case of a letter counts only between names that are otherwise the same, the small
  letter first; any other character is placed after the letters by its code. On the
  names of the examples it answers as the host's \<^verbatim>\<open>localeCompare\<close> does
  (\<^verbatim>\<open>"a-b".localeCompare("a_b")\<close> and \<^verbatim>\<open>"A".localeCompare("a")\<close> are 1); it is not
  a model of the whole collation.\<close>

definition primary :: "char \<Rightarrow> nat" where
  "primary c =
     (if c = CHR '' '' then 0
      else if c = CHR ''_'' then 1
      else if c = CHR ''-'' then 2
      else if CHR ''0'' \<le> c \<and> c \<le> CHR ''9'' then 3 + (of_char c - 48)
      else if CHR ''a'' \<le> lower_char c \<and> lower_char c \<le> CHR ''z''
        then 13 + (of_char (lower_char c) - 97)
      else 39 + of_char c)"

definition capital :: "char \<Rightarrow> bool" where
  "capital c = (CHR ''A'' \<le> c \<and> c \<le> CHR ''Z'')"

definition collate :: "string \<Rightarrow> string \<Rightarrow> int" where
  "collate a b =
     (if map primary a < map primary b then - 1
      else if map primary b < map primary a then 1
      else if map capital a < map capital b then - 1
      else if map capital b < map capital a then 1
      else 0)"



text \<open>A device without the time stamp of the refresh that created it.\<close>

definition without_time :: "BluetoothDevice \<Rightarrow> BluetoothDevice" where
  "without_time d = d\<lparr>lastConnected := None\<rparr>"

text \<open>The external commands run, and the delays of the re-fetches scheduled, in a trace
  of effects; the items of the section of the rendered list with a given title.\<close>

fun command_of :: "effect \<Rightarrow> string list" where
  "command_of (ExecSync c) = [c]"
| "command_of _ = []"

definition commands :: "effect list \<Rightarrow> string list" where
  "commands es = concat (map command_of es)"

fun timer_of :: "effect \<Rightarrow> nat list" where
  "timer_of (SetTimeout_refreshDevices ms) = [ms]"
| "timer_of _ = []"

definition timers :: "effect list \<Rightarrow> nat list" where
  "timers es = concat (map timer_of es)"

definition section_of :: "string \<Rightarrow> ListSection list \<Rightarrow> ListItem list" where
  "section_of title view = concat (map section_items (filter (\<lambda>s. section_title s = title) view))"

subsection \<open>The wording of the specification, for comparison\<close>

text \<open>The specification splits a query on whitespace. These definitions follow its
  words: the terms of a query are its pieces between whitespace characters, and a device
  matches when every term is a subsequence of its lowercased name or type.\<close>

definition is_whitespace :: "char \<Rightarrow> bool" where
  "is_whitespace c =
     (c \<in> set [CHR '' '', CHR 0x09, CHR 0x0A, CHR 0x0B, CHR 0x0C, CHR 0x0D])"

fun whitespace_terms :: "string \<Rightarrow> string list" where
  "whitespace_terms [] = [[]]"
| "whitespace_terms (c # cs) =
     (if is_whitespace c then [] # whitespace_terms cs
      else (case whitespace_terms cs of
              [] \<Rightarrow> [[c]]
            | piece # pieces \<Rightarrow> (c # piece) # pieces))"

definition spec_matches :: "BluetoothDevice \<Rightarrow> string \<Rightarrow> bool" where
  "spec_matches d q =
     (\<forall>t \<in> set (whitespace_terms (toLowerCase q)).
        subseq t (toLowerCase (name d)) \<or> subseq t (toLowerCase (or_else (type d) [])))"


subsection \<open>Example data\<close>

text \<open>The devices of the specification's scenarios.\<close>

definition no_data :: RawDeviceData where
  "no_data =
     \<lparr>device_address = None, device_minorType = None, device_batteryLevelMain = None,
      device_rssi = None, device_vendorID = None, device_productID = None,
      device_firmwareVersion = None\<rparr>"

definition bose_raw :: RawBluetoothDeviceData where
  "bose_raw =
     [(''Bose QC35'',
       Some (no_data\<lparr>device_address := Some ''AA:BB'',
                      device_minorType := Some ''Headphones''\<rparr>))]"

definition keyboard_raw :: RawBluetoothDeviceData where
  "keyboard_raw = [(''Keyboard'', Some (no_data\<lparr>device_address := Some ''CC:DD''\<rparr>))]"

definition bose :: BluetoothDevice where
  "bose =
     \<lparr>name = ''Bose QC35'', address = Some ''AA:BB'', connected = True,
      lastConnected = Some 0, type = Some ''Headphones'', batteryLevel = None, rssi = None,
      vendorId = None, productId = None, firmwareVersion = None\<rparr>"

definition keyboard :: BluetoothDevice where
  "keyboard =
     \<lparr>name = ''Keyboard'', address = Some ''CC:DD'', connected = False,
      lastConnected = None, type = None, batteryLevel = None, rssi = None,
      vendorId = None, productId = None, firmwareVersion = None\<rparr>"

definition ready :: CommandState where
  "ready = initial\<lparr>blueutilPath := ''/opt/homebrew/bin/blueutil''\<rparr>"

definition paired :: CommandState where
  "paired = ready\<lparr>allDevices := [bose, keyboard]\<rparr>"

text \<open>A snapshot that lists the same device as connected and as not connected.\<close>

definition duplicated :: "SystemProfilerData option" where
  "duplicated = snapshot [bose_raw] [bose_raw]"

definition speaker_raw :: RawBluetoothDeviceData where
  "speaker_raw =
     [(''anker Speaker'', Some (no_data\<lparr>device_address := Some ''EE:FF''\<rparr>))]"

definition three :: "SystemProfilerData option" where
  "three = snapshot [bose_raw, speaker_raw] [keyboard_raw]"






definition scanning :: CommandState where
  "scanning = paired\<lparr>isScanning := True\<rparr>"

definition found :: "InquiryDevice list" where
  "found =
     [InquiryDevice (Some ''AA:BB'') (Some ''Bose QC35'') None,
      InquiryDevice (Some ''11:22'') None (Some (- 60))]"

definition many :: CommandState where
  "many = paired\<lparr>allDevices := [bose, bose, bose, keyboard, keyboard, keyboard]\<rparr>"

text \<open>Two devices that are not connected, whose names differ in a hyphen and an
  underscore.\<close>

definition hyphen_raw :: RawBluetoothDeviceData where
  "hyphen_raw = [(''a-b'', Some (no_data\<lparr>device_address := Some ''11:11''\<rparr>))]"

definition underscore_raw :: RawBluetoothDeviceData where
  "underscore_raw = [(''a_b'', Some (no_data\<lparr>device_address := Some ''22:22''\<rparr>))]"

definition punctuated :: "SystemProfilerData option" where
  "punctuated = snapshot [] [hyphen_raw, underscore_raw]"

text \<open>The state after a start-up that finds the tool and the two devices of the
  scenario.\<close>

definition after_startup :: CommandState where
  "after_startup =
     startup (Some ''/opt/homebrew/bin/blueutil'') ci_compare 0
       (Parsed (snapshot [bose_raw] [keyboard_raw])) initial"

section \<open>Properties\<close>

subsection \<open>Fuzzy search\<close>

text \<open>The loop of \<^verbatim>\<open>fuzzyMatch\<close> matches greedily; that decides whether the pattern
  is a subsequence of the text.\<close>

lemma fuzzyMatch_loop_subseq:
  "i \<le> length s \<Longrightarrow> j \<le> length p \<Longrightarrow>
   (fuzzyMatch_loop s p i j = length p) = subseq (drop j p) (drop i s)"
proof (induction s p i j rule: fuzzyMatch_loop.induct)
  case (1 s p i j)
  show ?case
  proof (cases "i < length s \<and> j < length p")
    case True
    then have s: "drop i s = s ! i # drop (Suc i) s"
      and p: "drop j p = p ! j # drop (Suc j) p"
      by (simp_all add: Cons_nth_drop_Suc)
    from True "1.IH" have
      "(fuzzyMatch_loop s p (i + 1) (if s ! i = p ! j then j + 1 else j) = length p)
       = subseq (drop (if s ! i = p ! j then j + 1 else j) p) (drop (i + 1) s)"
      by simp
    with True show ?thesis
      by (subst fuzzyMatch_loop.simps) (auto simp: s p)
  next
    case False
    with "1.prems" have "j = length p \<or> (i = length s \<and> j < length p)"
      by auto
    then show ?thesis
      by (subst fuzzyMatch_loop.simps) auto
  qed
qed

lemma fuzzyMatch_subseq: "fuzzyMatch s p = subseq p s"
  using fuzzyMatch_loop_subseq [of 0 s 0 p] by (simp add: fuzzyMatch_def)

text \<open>What \<^verbatim>\<open>split\<close> returns: pieces without the separator which, joined by the
  separator, give the string back.\<close>

lemma split_on_not_Nil: "split_on sep s \<noteq> []"
  by (induction s) (auto split: list.splits)

lemma split_on_no_sep: "t \<in> set (split_on sep s) \<Longrightarrow> sep \<notin> set t"
  by (induction s arbitrary: t) (auto split: list.splits if_splits)

lemma join_split_on: "join [sep] (split_on sep s) = s"
proof (induction s)
  case Nil
  show ?case by simp
next
  case (Cons c s)
  obtain p ps where "split_on sep s = p # ps"
    using split_on_not_Nil [of sep s] by (cases "split_on sep s") auto
  with Cons show ?case
    by (cases ps) auto
qed

text \<open>
  C5, as stated: a device matches a query if and only if every whitespace-separated
  lowercase term of the query is a case-insensitive subsequence of its name or type.
  The source splits the query at the space character only, so a tab stays inside a term:
  for the query \<^verbatim>\<open>k<TAB>b\<close> and the device "Keyboard" the terms of the specification
  are "k" and "b", both subsequences of the name, while the source looks for the one term
  \<^verbatim>\<open>k<TAB>b\<close> and finds no match.
\<close>

theorem fuzzySearch_whitespace_counterexample:
  "spec_matches keyboard [CHR ''k'', CHR 0x09, CHR ''b'']
   \<and> \<not> fuzzySearch keyboard [CHR ''k'', CHR 0x09, CHR ''b'']"
  by code_simp

text \<open>
  C5, amended: every device matches the empty query; and a device matches a query if
  and only if every term of the lowercased query, the terms being its pieces between
  space characters (U+0020), is a subsequence of the lowercased name or of the lowercased
  type (the empty string when the device has no type).
\<close>

theorem fuzzySearch_space_terms:
  "fuzzySearch d []
   \<and> (fuzzySearch d q \<longleftrightarrow>
        (\<forall>t \<in> set (split_on CHR '' '' (toLowerCase q)).
           subseq t (toLowerCase (name d)) \<or> subseq t (toLowerCase (or_else (type d) []))))"
proof -
  have "split_on CHR '' '' (toLowerCase []) = [[]]"
    by (simp add: toLowerCase_def)
  then have empty: "fuzzySearch d []"
    by (simp add: fuzzySearch_def Let_def fuzzyMatch_subseq)
  have "fuzzySearch d q =
      list_all (\<lambda>t. fuzzyMatch (toLowerCase (name d)) t
                    \<or> fuzzyMatch (toLowerCase (or_else (type d) [])) t)
        (split_on CHR '' '' (toLowerCase q))"
    by (simp add: fuzzySearch_def Let_def)
  also have "\<dots> =
      (\<forall>t \<in> set (split_on CHR '' '' (toLowerCase q)).
         subseq t (toLowerCase (name d)) \<or> subseq t (toLowerCase (or_else (type d) [])))"
    by (simp add: list_all_iff fuzzyMatch_subseq)
  finally show ?thesis
    using empty by simp
qed

theorem fuzzySearch_space_terms_witness:
  "fuzzySearch bose ''bq'' \<and> \<not> fuzzySearch bose ''xq'' \<and> fuzzySearch bose ''head  qc ''"
proof -
  have "\<forall>t \<in> set (split_on CHR '' '' (toLowerCase ''bq'')).
          subseq t (toLowerCase (name bose)) \<or> subseq t (toLowerCase (or_else (type bose) []))"
    by code_simp
  moreover have "\<not> (\<forall>t \<in> set (split_on CHR '' '' (toLowerCase ''xq'')).
          subseq t (toLowerCase (name bose)) \<or> subseq t (toLowerCase (or_else (type bose) [])))"
    by code_simp
  moreover have "\<forall>t \<in> set (split_on CHR '' '' (toLowerCase ''head  qc '')).
          subseq t (toLowerCase (name bose)) \<or> subseq t (toLowerCase (or_else (type bose) []))"
    by code_simp
  ultimately show ?thesis
    using fuzzySearch_space_terms [of bose "''bq''"]
      fuzzySearch_space_terms [of bose "''xq''"]
      fuzzySearch_space_terms [of bose "''head  qc ''"]
    by blast
qed

subsection \<open>Refreshing: what the records become\<close>

lemma mset_insert_by: "mset (insert_by cmp x xs) = add_mset x (mset xs)"
  by (induction xs) auto

lemma mset_array_sort: "mset (array_sort cmp xs) = mset xs"
  by (induction xs) (auto simp: array_sort_def mset_insert_by)

lemma set_insert_by: "set (insert_by cmp x xs) = insert x (set xs)"
  by (induction xs) auto

lemma map_throwing_connected:
  "map_throwing (connectedDevice now) rs = Inr ds \<Longrightarrow>
   list_all readable rs \<and> map name ds = map entry_name rs
   \<and> map address ds = map entry_address rs \<and> map connected ds = map (\<lambda>_. True) rs"
  by (induction rs arbitrary: ds)
    (auto simp: connectedDevice_def entry_name_def entry_address_def readable_def
          split: sum.splits list.splits option.splits)

lemma map_throwing_disconnected:
  "map_throwing disconnectedDevice rs = Inr ds \<Longrightarrow>
   list_all readable rs \<and> map name ds = map entry_name rs
   \<and> map address ds = map entry_address rs \<and> map connected ds = map (\<lambda>_. False) rs"
  by (induction rs arbitrary: ds)
    (auto simp: disconnectedDevice_def entry_name_def entry_address_def readable_def
          split: sum.splits list.splits option.splits)

lemma map_throwing_connected_total:
  "list_all readable rs \<Longrightarrow> \<exists>ds. map_throwing (connectedDevice now) rs = Inr ds"
  by (induction rs)
    (auto simp: connectedDevice_def readable_def split: sum.splits list.splits option.splits)

lemma map_throwing_disconnected_total:
  "list_all readable rs \<Longrightarrow> \<exists>ds. map_throwing disconnectedDevice rs = Inr ds"
  by (induction rs)
    (auto simp: disconnectedDevice_def readable_def split: sum.splits list.splits option.splits)




lemma readDevices_Parsed:
  assumes "device_group device_connected data = Inr cs"
    and "device_group device_not_connected data = Inr ds"
  shows "readDevices now (Parsed data) =
     (case map_throwing (connectedDevice now) cs of
        Inl e \<Rightarrow> Inl e
      | Inr xs \<Rightarrow>
          (case map_throwing disconnectedDevice ds of
             Inl e \<Rightarrow> Inl e
           | Inr ys \<Rightarrow> Inr (xs @ ys)))"
  using assms by (simp add: readDevices_def)

lemma readDevices_records:
  assumes "device_group device_connected data = Inr cs"
    and "device_group device_not_connected data = Inr ds"
    and "list_all readable (cs @ ds)"
  shows "\<exists>xs ys. readDevices now (Parsed data) = Inr (xs @ ys)
     \<and> map name xs = map entry_name cs \<and> map address xs = map entry_address cs
     \<and> map connected xs = map (\<lambda>_. True) cs
     \<and> map name ys = map entry_name ds \<and> map address ys = map entry_address ds
     \<and> map connected ys = map (\<lambda>_. False) ds"
proof -
  from assms(3) obtain xs ys where xs: "map_throwing (connectedDevice now) cs = Inr xs"
    and ys: "map_throwing disconnectedDevice ds = Inr ys"
    using map_throwing_connected_total [of cs now] map_throwing_disconnected_total [of ds]
    by auto
  have "readDevices now (Parsed data) = Inr (xs @ ys)"
    by (simp add: readDevices_Parsed [OF assms(1,2)] xs ys)
  with map_throwing_connected [OF xs] map_throwing_disconnected [OF ys] show ?thesis
    by blast
qed


lemma refreshDevices_Inr:
  "readDevices now output = Inr devs \<Longrightarrow>
   refreshDevices cmp now output st =
     st\<lparr>effects := effects st @ [ExecSync system_profiler],
        allDevices := array_sort (compareDevices cmp) devs\<rparr>"
  by (simp add: refreshDevices_def Let_def)


text \<open>
  C1, as stated: after a successful refresh no two known devices have the same address,
  also when the source lists an address in both groups. The source concatenates the two
  groups and sorts them; nothing removes a duplicate. A snapshot with the same device in
  both groups is refreshed without error and leaves two entries with the address AA:BB.
\<close>

theorem refreshDevices_duplicate_counterexample:
  "\<not> distinct (map address (allDevices (refreshDevices ci_compare 0 (Parsed duplicated) ready)))
   \<and> effects (refreshDevices ci_compare 0 (Parsed duplicated) ready) = [ExecSync system_profiler]"
  by code_simp

text \<open>
  C1, amended: a refresh that succeeds (every record of the two groups can be read)
  keeps one known device per source record: the addresses of the known devices are, as a
  multiset, the addresses of the records of the connected and the not-connected group; so
  no two known devices share an address exactly when no two source records do.
\<close>

theorem refreshDevices_addresses:
  assumes "device_group device_connected data = Inr cs"
    and "device_group device_not_connected data = Inr ds"
    and "list_all readable (cs @ ds)"
  shows "mset (map address (allDevices (refreshDevices cmp now (Parsed data) st)))
           = mset (map entry_address (cs @ ds))
     \<and> distinct (map address (allDevices (refreshDevices cmp now (Parsed data) st)))
           = distinct (map entry_address (cs @ ds))"
proof -
  from readDevices_records [OF assms, of now] obtain xs ys
    where r: "readDevices now (Parsed data) = Inr (xs @ ys)"
      and a: "map address xs = map entry_address cs" "map address ys = map entry_address ds"
    by blast
  have "mset (map address (array_sort (compareDevices cmp) (xs @ ys)))
          = mset (map address (xs @ ys))"
    by (simp add: mset_array_sort)
  with a have m: "mset (map address (allDevices (refreshDevices cmp now (Parsed data) st)))
           = mset (map entry_address (cs @ ds))"
    by (simp add: refreshDevices_Inr [OF r])
  from mset_eq_imp_distinct_iff [OF m] m show ?thesis by simp
qed

theorem refreshDevices_addresses_witness:
  "distinct (map address (allDevices
      (refreshDevices ci_compare 0 (Parsed (snapshot [bose_raw] [keyboard_raw])) ready)))
   \<and> mset (map address (allDevices
      (refreshDevices ci_compare 0 (Parsed (snapshot [bose_raw] [keyboard_raw])) ready)))
       = {#Some ''AA:BB'', Some ''CC:DD''#}"
proof -
  have g: "device_group device_connected (snapshot [bose_raw] [keyboard_raw]) = Inr [bose_raw]"
    "device_group device_not_connected (snapshot [bose_raw] [keyboard_raw]) = Inr [keyboard_raw]"
    "list_all readable ([bose_raw] @ [keyboard_raw])"
    by code_simp+
  have d: "distinct (map entry_address ([bose_raw] @ [keyboard_raw]))"
    "map entry_address ([bose_raw] @ [keyboard_raw]) = [Some ''AA:BB'', Some ''CC:DD'']"
    by code_simp+
  show ?thesis
    using refreshDevices_addresses [OF g, of ci_compare 0 ready] d
    by simp
qed

subsection \<open>Refreshing: the order of the known devices\<close>

lemma sorted_wrt_insert_by:
  assumes total: "\<And>a b. cmp a b \<le> 0 \<or> cmp b a \<le> 0"
    and trans: "\<And>a b c. cmp a b \<le> 0 \<Longrightarrow> cmp b c \<le> 0 \<Longrightarrow> cmp a c \<le> 0"
  shows "sorted_wrt (\<lambda>a b. cmp a b \<le> 0) xs \<Longrightarrow> sorted_wrt (\<lambda>a b. cmp a b \<le> 0) (insert_by cmp x xs)"
proof (induction xs)
  case Nil
  show ?case by simp
next
  case (Cons y ys)
  show ?case
  proof (cases "cmp x y \<le> 0")
    case True
    with Cons.prems trans show ?thesis by auto
  next
    case False
    with total have "cmp y x \<le> 0" by blast
    with False Cons show ?thesis by (auto simp: set_insert_by)
  qed
qed

lemma sorted_wrt_array_sort:
  assumes total: "\<And>a b. cmp a b \<le> 0 \<or> cmp b a \<le> 0"
    and trans: "\<And>a b c. cmp a b \<le> 0 \<Longrightarrow> cmp b c \<le> 0 \<Longrightarrow> cmp a c \<le> 0"
  shows "sorted_wrt (\<lambda>a b. cmp a b \<le> 0) (array_sort cmp xs)"
proof (induction xs)
  case Nil
  show ?case by (simp add: array_sort_def)
next
  case (Cons x xs)
  have "array_sort cmp (x # xs) = insert_by cmp x (array_sort cmp xs)"
    by (simp add: array_sort_def)
  with Cons sorted_wrt_insert_by [OF total trans] show ?case by simp
qed

lemma compareDevices_le:
  "(compareDevices cmp a b \<le> 0) =
     ((connected a \<and> \<not> connected b)
      \<or> (connected a = connected b \<and> cmp (name a) (name b) \<le> 0))"
  by (auto simp: compareDevices_def)

lemma consistent_total: "consistent cmp \<Longrightarrow> cmp a b \<le> 0 \<or> cmp b a \<le> 0"
  unfolding consistent_def by (metis linorder_not_le order_less_imp_le)

lemma consistent_trans:
  "consistent cmp \<Longrightarrow> cmp a b \<le> 0 \<Longrightarrow> cmp b c \<le> 0 \<Longrightarrow> cmp a c \<le> 0"
  unfolding consistent_def by blast

lemma sorted_devices:
  assumes "consistent cmp"
  shows "sorted_wrt (\<lambda>a b. compareDevices cmp a b \<le> 0) (array_sort (compareDevices cmp) xs)"
proof (rule sorted_wrt_array_sort)
  show "compareDevices cmp a b \<le> 0 \<or> compareDevices cmp b a \<le> 0" for a b
    using consistent_total [OF assms, of "name a" "name b"]
    unfolding compareDevices_le by auto
  show "compareDevices cmp a b \<le> 0 \<Longrightarrow> compareDevices cmp b c \<le> 0
      \<Longrightarrow> compareDevices cmp a c \<le> 0" for a b c
    using consistent_trans [OF assms, of "name a" "name b" "name c"]
    unfolding compareDevices_le by auto
qed

lemma collate_le:
  "(collate a b \<le> 0) =
     (map primary a < map primary b
      \<or> (map primary a = map primary b \<and> map capital a \<le> map capital b))"
  by (auto simp: collate_def)

lemma collate_less:
  "(collate a b < 0) =
     (map primary a < map primary b
      \<or> (map primary a = map primary b \<and> map capital a < map capital b))"
  by (auto simp: collate_def)

lemma collate_greater:
  "(0 < collate a b) =
     (map primary b < map primary a
      \<or> (map primary a = map primary b \<and> map capital b < map capital a))"
  by (auto simp: collate_def)

lemma collate_consistent: "consistent collate"
  unfolding consistent_def collate_le collate_less collate_greater
  by (auto intro: less_trans order_trans)

lemma sorted_wrt_partition:
  assumes "\<And>a b. R a b \<Longrightarrow> P b \<Longrightarrow> P a"
  shows "sorted_wrt R xs \<Longrightarrow> xs = filter P xs @ filter (\<lambda>x. \<not> P x) xs"
proof (induction xs)
  case Nil
  show ?case by simp
next
  case (Cons x xs)
  show ?case
  proof (cases "P x")
    case True
    with Cons show ?thesis by simp
  next
    case False
    with Cons.prems assms have "\<forall>z \<in> set xs. \<not> P z" by auto
    then have "filter P xs = []" "filter (\<lambda>x. \<not> P x) xs = xs"
      by (simp_all add: filter_empty_conv filter_id_conv)
    with False show ?thesis by simp
  qed
qed

lemma insert_by_map:
  assumes "\<And>a b. cmp (f a) (f b) = cmp a b"
  shows "map f (insert_by cmp x xs) = insert_by cmp (f x) (map f xs)"
  by (induction xs) (auto simp: assms)

lemma array_sort_map:
  assumes "\<And>a b. cmp (f a) (f b) = cmp a b"
  shows "map f (array_sort cmp xs) = array_sort cmp (map f xs)"
  using assms by (induction xs) (simp_all add: array_sort_def insert_by_map)

lemma compareDevices_without_time:
  "compareDevices cmp (without_time a) (without_time b) = compareDevices cmp a b"
  by (simp add: compareDevices_def without_time_def)

lemma array_sort_without_time:
  "map without_time (array_sort (compareDevices cmp) xs)
     = array_sort (compareDevices cmp) (map without_time xs)"
  by (rule array_sort_map) (rule compareDevices_without_time)

lemma map_throwing_connected_clock:
  "map_throwing (connectedDevice now) rs = Inr ds \<Longrightarrow>
   \<exists>ds'. map_throwing (connectedDevice now') rs = Inr ds'
     \<and> map without_time ds' = map without_time ds"
  by (induction rs arbitrary: ds)
    (auto simp: connectedDevice_def without_time_def
          split: sum.splits list.splits option.splits)

lemma readDevices_clock:
  assumes "readDevices now output = Inr devs"
  shows "\<exists>devs'. readDevices now' output = Inr devs'
     \<and> map without_time devs' = map without_time devs"
proof (cases "output")
  case ExecFailed
  with assms show ?thesis by (simp add: readDevices_def)
next
  case ParseFailed
  with assms show ?thesis by (simp add: readDevices_def)
next
  case (Parsed data)
  from assms Parsed obtain cs ds xs ys
    where g: "device_group device_connected data = Inr cs"
      "device_group device_not_connected data = Inr ds"
      and xs: "map_throwing (connectedDevice now) cs = Inr xs"
      and ys: "map_throwing disconnectedDevice ds = Inr ys"
      and devs: "devs = xs @ ys"
    by (auto simp: readDevices_def split: sum.splits)
  from map_throwing_connected_clock [OF xs, of now'] obtain xs'
    where xs': "map_throwing (connectedDevice now') cs = Inr xs'"
      "map without_time xs' = map without_time xs"
    by blast
  have "readDevices now' output = Inr (xs' @ ys)"
    by (simp add: Parsed readDevices_Parsed [OF g] xs' ys)
  with xs' devs show ?thesis by simp
qed

text \<open>
  C6, as stated: after a successful refresh the connected devices come first, and each
  group is in ascending case-insensitive lexicographic order of the names. The source
  orders the names with \<^verbatim>\<open>localeCompare\<close>, the collation of the host, which is another
  order: the host puts "a_b" before "a-b" (and so does \<open>collate\<close>), while the hyphen
  comes before the underscore in the lexicographic order of the lowercased names. Two
  not-connected devices with these names are listed "a_b", "a-b".
\<close>

theorem refreshDevices_name_order_counterexample:
  "collate ''a-b'' ''a_b'' = 1
   \<and> map name (allDevices (refreshDevices collate 0 (Parsed punctuated) ready))
       = [''a_b'', ''a-b'']
   \<and> \<not> sorted (map (\<lambda>d. toLowerCase (name d))
          (filter (\<lambda>d. \<not> connected d)
             (allDevices (refreshDevices collate 0 (Parsed punctuated) ready))))"
  by code_simp

text \<open>
  C6, amended: after a successful refresh the known devices are the connected ones
  followed by the disconnected ones, each group in ascending order of the names under
  \<^verbatim>\<open>localeCompare\<close> (every name compares less than or equal to each later one), for
  any host whose \<^verbatim>\<open>localeCompare\<close> is a consistent comparison function, as ECMAScript
  requires; and the order depends on the source output alone: a refresh of the same
  output, at any time and from any state, gives the same list (time stamps apart).
\<close>

theorem refreshDevices_order:
  assumes cc: "consistent localeCompare"
    and ok: "readDevices now output = Inr devs"
  shows "allDevices (refreshDevices localeCompare now output st)
           = filter connected (allDevices (refreshDevices localeCompare now output st))
             @ filter (\<lambda>d. \<not> connected d) (allDevices (refreshDevices localeCompare now output st))
     \<and> sorted_wrt (\<lambda>a b. localeCompare (name a) (name b) \<le> 0)
          (filter connected (allDevices (refreshDevices localeCompare now output st)))
     \<and> sorted_wrt (\<lambda>a b. localeCompare (name a) (name b) \<le> 0)
          (filter (\<lambda>d. \<not> connected d) (allDevices (refreshDevices localeCompare now output st)))
     \<and> (\<forall>now' st'. map without_time (allDevices (refreshDevices localeCompare now' output st'))
           = map without_time (allDevices (refreshDevices localeCompare now output st)))"
proof -
  let ?le = "\<lambda>a b. compareDevices localeCompare a b \<le> 0"
  let ?known = "allDevices (refreshDevices localeCompare now output st)"
  have known: "?known = array_sort (compareDevices localeCompare) devs"
    by (simp add: refreshDevices_Inr [OF ok])
  have s: "sorted_wrt ?le ?known"
    unfolding known by (rule sorted_devices [OF cc])
  have groups: "?known = filter connected ?known @ filter (\<lambda>d. \<not> connected d) ?known"
  proof (rule sorted_wrt_partition [OF _ s])
    show "?le a b \<Longrightarrow> connected b \<Longrightarrow> connected a" for a b
      unfolding compareDevices_le by auto
  qed
  have "sorted_wrt ?le (filter connected ?known)"
    using s by (rule sorted_wrt_filter)
  then have cs: "sorted_wrt (\<lambda>a b. localeCompare (name a) (name b) \<le> 0)
      (filter connected ?known)"
    by (rule sorted_wrt_mono_rel [rotated]) (auto simp: compareDevices_le)
  have "sorted_wrt ?le (filter (\<lambda>d. \<not> connected d) ?known)"
    using s by (rule sorted_wrt_filter)
  then have ds: "sorted_wrt (\<lambda>a b. localeCompare (name a) (name b) \<le> 0)
      (filter (\<lambda>d. \<not> connected d) ?known)"
    by (rule sorted_wrt_mono_rel [rotated]) (auto simp: compareDevices_le)
  have again: "map without_time (allDevices (refreshDevices localeCompare now' output st'))
           = map without_time ?known" for now' st'
  proof -
    from readDevices_clock [OF ok, of now'] obtain devs'
      where r: "readDevices now' output = Inr devs'"
        and e: "map without_time devs' = map without_time devs"
      by blast
    have "map without_time (array_sort (compareDevices localeCompare) devs')
            = map without_time (array_sort (compareDevices localeCompare) devs)"
      by (simp add: array_sort_without_time e)
    then show ?thesis
      by (simp add: refreshDevices_Inr [OF r] known)
  qed
  from groups cs ds again show ?thesis
    by simp
qed

theorem refreshDevices_order_witness:
  "map name (filter connected (allDevices (refreshDevices collate 0 (Parsed three) ready)))
     = [''anker Speaker'', ''Bose QC35'']
   \<and> sorted_wrt (\<lambda>a b. collate (name a) (name b) \<le> 0)
        (filter connected (allDevices (refreshDevices collate 0 (Parsed three) ready)))
   \<and> allDevices (refreshDevices collate 0 (Parsed three) ready)
       = filter connected (allDevices (refreshDevices collate 0 (Parsed three) ready))
         @ filter (\<lambda>d. \<not> connected d) (allDevices (refreshDevices collate 0 (Parsed three) ready))"
proof -
  have n: "map name (filter connected (allDevices (refreshDevices collate 0 (Parsed three) ready)))
     = [''anker Speaker'', ''Bose QC35'']"
    by code_simp
  have "\<not> isl (readDevices 0 (Parsed three))"
    by code_simp
  then have "readDevices 0 (Parsed three) = Inr (projr (readDevices 0 (Parsed three)))"
    by (cases "readDevices 0 (Parsed three)") simp_all
  from refreshDevices_order [OF collate_consistent this, of ready] n
  show ?thesis by blast
qed

subsection \<open>Refreshing: records without an address\<close>






subsection \<open>Refreshing: failures\<close>






subsection \<open>Discovery\<close>

lemma commands_append: "commands (xs @ ys) = commands xs @ commands ys"
  by (simp add: commands_def)

lemma timers_append: "timers (xs @ ys) = timers xs @ timers ys"
  by (simp add: timers_def)

lemma isScanning_refreshDevices:
  "isScanning (refreshDevices cmp now out st) = isScanning st"
  by (simp add: refreshDevices_def Let_def split: sum.splits)

lemma isScanning_startup: "isScanning (startup located cmp now out st) = isScanning st"
  by (simp add: startup_def Let_def isScanning_refreshDevices split: option.splits)

lemma isScanning_toggleConnection:
  "isScanning (toggleConnection addr isConnected succeeds st) = isScanning st"
  by (simp add: toggleConnection_def Let_def)

lemma isScanning_forgetDevice:
  "isScanning (forgetDevice_ask nm st) = isScanning st"
  "isScanning (forgetDevice_answer addr confirmed succeeds cmp now out st) = isScanning st"
  by (simp_all add: forgetDevice_ask_def forgetDevice_answer_def Let_def
      isScanning_refreshDevices)

lemma isScanning_pairDevice:
  "isScanning (pairDevice addr nm succeeds cmp now out st) = isScanning st"
  by (simp add: pairDevice_def Let_def isScanning_refreshDevices)

lemma isScanning_startDiscovery: "\<not> isScanning (startDiscovery out st)"
  by (cases out) (simp_all add: startDiscovery_def scan_failed_def Let_def)

lemma reachable_not_scanning: "reachable st \<Longrightarrow> \<not> isScanning st"
  by (induction rule: reachable.induct)
    (simp_all add: initial_def isScanning_refreshDevices isScanning_startup
      isScanning_toggleConnection isScanning_forgetDevice isScanning_pairDevice
      isScanning_startDiscovery)

lemma blueutilPath_startDiscovery:
  "blueutilPath (startDiscovery out st) = blueutilPath st"
  by (cases out) (simp_all add: startDiscovery_def scan_failed_def Let_def)

lemma effects_startDiscovery:
  assumes "blueutilPath st \<noteq> []"
  shows "\<exists>report. effects (startDiscovery out st) =
           effects st @ [ShowToast Animated ''Scanning for devices...'',
                         ExecSync (blueutilPath st @ '' --inquiry 10 --format json'')] @ report
         \<and> report \<noteq> [] \<and> commands report = []"
  using assms
  by (cases out) (simp_all add: startDiscovery_def scan_failed_def Let_def commands_def)

text \<open>
  C2, as stated: a call of \<^verbatim>\<open>startDiscovery\<close> that finds a scan in flight is rejected
  with \<^verbatim>\<open>ConcurrentScanRejected\<close> and issues no scan command; of two requests in
  rapid succession the second is rejected. The source rejects nothing: the first call
  runs its scan to the end inside the blocking \<^verbatim>\<open>execSync\<close>, and the second call,
  made in the state the first one leaves, runs a scan of its own.
\<close>

theorem startDiscovery_twice_counterexample:
  "reachable after_startup
   \<and> effects (startDiscovery (Parsed []) (startDiscovery (Parsed found) after_startup)) =
       effects after_startup
       @ [ShowToast Animated ''Scanning for devices...'',
          ExecSync ''/opt/homebrew/bin/blueutil --inquiry 10 --format json'',
          ShowToast Success ''Found 1 new devices'',
          ShowToast Animated ''Scanning for devices...'',
          ExecSync ''/opt/homebrew/bin/blueutil --inquiry 10 --format json'',
          ShowToast Success ''Found 0 new devices'']"
proof
  show "reachable after_startup"
    unfolding after_startup_def by (rule reachable.started)
  show "effects (startDiscovery (Parsed []) (startDiscovery (Parsed found) after_startup)) =
       effects after_startup
       @ [ShowToast Animated ''Scanning for devices...'',
          ExecSync ''/opt/homebrew/bin/blueutil --inquiry 10 --format json'',
          ShowToast Success ''Found 1 new devices'',
          ShowToast Animated ''Scanning for devices...'',
          ExecSync ''/opt/homebrew/bin/blueutil --inquiry 10 --format json'',
          ShowToast Success ''Found 0 new devices'']"
    by code_simp
qed

text \<open>
  C2, amended: no call of \<^verbatim>\<open>startDiscovery\<close> is rejected, and there is no
  \<^verbatim>\<open>ConcurrentScanRejected\<close>. The scanning flag is set and cleared inside one call:
  it is clear in every state of a run between two handlers and after every call of
  \<^verbatim>\<open>startDiscovery\<close>, so no call finds a scan in flight. With the tool path set, a
  call issues exactly one scan command and reports its outcome before it returns; a
  second call issues its own scan command after that. The scan commands of a run thus
  follow one another, and at no point are two of them outstanding.
\<close>

theorem startDiscovery_serial:
  "(reachable st \<longrightarrow> \<not> isScanning st)
   \<and> \<not> isScanning (startDiscovery out st)
   \<and> (blueutilPath st \<noteq> [] \<longrightarrow>
        (\<exists>report. effects (startDiscovery out st) =
           effects st @ [ShowToast Animated ''Scanning for devices...'',
                         ExecSync (blueutilPath st @ '' --inquiry 10 --format json'')] @ report
           \<and> report \<noteq> [] \<and> commands report = [])
        \<and> commands (effects (startDiscovery out' (startDiscovery out st))) =
            commands (effects st)
            @ [blueutilPath st @ '' --inquiry 10 --format json'',
               blueutilPath st @ '' --inquiry 10 --format json''])"
proof (intro conjI impI)
  show "reachable st \<Longrightarrow> \<not> isScanning st"
    by (rule reachable_not_scanning)
  show "\<not> isScanning (startDiscovery out st)"
    by (rule isScanning_startDiscovery)
next
  assume path: "blueutilPath st \<noteq> []"
  from effects_startDiscovery [OF path, of out]
  show first: "\<exists>report. effects (startDiscovery out st) =
           effects st @ [ShowToast Animated ''Scanning for devices...'',
                         ExecSync (blueutilPath st @ '' --inquiry 10 --format json'')] @ report
         \<and> report \<noteq> [] \<and> commands report = []" .
  then obtain r1 where e1: "effects (startDiscovery out st) =
      effects st @ [ShowToast Animated ''Scanning for devices...'',
                    ExecSync (blueutilPath st @ '' --inquiry 10 --format json'')] @ r1"
    and c1: "commands r1 = []"
    by blast
  from path have "blueutilPath (startDiscovery out st) \<noteq> []"
    by (simp add: blueutilPath_startDiscovery)
  from effects_startDiscovery [OF this, of out']
  obtain r2 where e2: "effects (startDiscovery out' (startDiscovery out st)) =
      effects (startDiscovery out st)
      @ [ShowToast Animated ''Scanning for devices...'',
         ExecSync (blueutilPath st @ '' --inquiry 10 --format json'')] @ r2"
    and c2: "commands r2 = []"
    by (auto simp: blueutilPath_startDiscovery)
  have scan: "commands [ShowToast Animated ''Scanning for devices...'',
      ExecSync (blueutilPath st @ '' --inquiry 10 --format json'')]
      = [blueutilPath st @ '' --inquiry 10 --format json'']"
    by (simp add: commands_def)
  show "commands (effects (startDiscovery out' (startDiscovery out st))) =
            commands (effects st)
            @ [blueutilPath st @ '' --inquiry 10 --format json'',
               blueutilPath st @ '' --inquiry 10 --format json'']"
    unfolding e2 e1 by (simp only: commands_append scan c1 c2) simp
qed

theorem startDiscovery_serial_witness:
  "\<not> isScanning after_startup
   \<and> \<not> isScanning (startDiscovery (Parsed found) after_startup)
   \<and> commands (effects (startDiscovery (Parsed []) (startDiscovery (Parsed found) after_startup)))
       = [''command -v blueutil'', ''/usr/sbin/system_profiler SPBluetoothDataType -json'',
          ''/opt/homebrew/bin/blueutil --inquiry 10 --format json'',
          ''/opt/homebrew/bin/blueutil --inquiry 10 --format json'']"
proof -
  have r: "reachable after_startup"
    unfolding after_startup_def by (rule reachable.started)
  have p: "blueutilPath after_startup \<noteq> []"
    "blueutilPath after_startup = ''/opt/homebrew/bin/blueutil''"
    "commands (effects after_startup)
       = [''command -v blueutil'', ''/usr/sbin/system_profiler SPBluetoothDataType -json'']"
    by code_simp+
  from startDiscovery_serial [where st = after_startup and out = "Parsed found"
      and out' = "Parsed []"] r p
  show ?thesis by simp
qed

text \<open>
  C9: after a successful scan no discovered device has an address (absent ones
  included) that a known device had when the scan started; the discovered addresses are
  the scanned addresses that were not known, in the order of the scan.
\<close>

theorem startDiscovery_excludes_known:
  assumes "blueutilPath st \<noteq> []"
  shows "map address (discoveredDevices (startDiscovery (Parsed devices) st))
           = filter (\<lambda>a. a \<notin> set (map address (allDevices st))) (map inq_address devices)
     \<and> (\<forall>d \<in> set (discoveredDevices (startDiscovery (Parsed devices) st)).
           address d \<notin> set (map address (allDevices st)))"
proof -
  have d: "discoveredDevices (startDiscovery (Parsed devices) st)
      = map discoveredDevice
          (filter (\<lambda>device. inq_address device \<notin> set (map address (allDevices st))) devices)"
    using assms by (simp add: startDiscovery_def Let_def)
  have a: "address (discoveredDevice device) = inq_address device" for device
    by (simp add: discoveredDevice_def)
  show ?thesis
    unfolding d by (auto simp: a filter_map comp_def)
qed

theorem startDiscovery_excludes_known_witness:
  "map address (discoveredDevices (startDiscovery (Parsed found) paired)) = [Some ''11:22'']
   \<and> map address (allDevices paired) = [Some ''AA:BB'', Some ''CC:DD'']"
proof -
  have p: "blueutilPath paired \<noteq> []"
    "map address (allDevices paired) = [Some ''AA:BB'', Some ''CC:DD'']"
    "map inq_address found = [Some ''AA:BB'', Some ''11:22'']"
    by code_simp+
  from startDiscovery_excludes_known [OF p(1), of found] p(2,3)
  show ?thesis by simp
qed

subsection \<open>Connecting and disconnecting\<close>

text \<open>
  C3, as stated: every call of \<^verbatim>\<open>toggleConnection\<close> schedules a delayed re-fetch,
  whether the control command succeeds or fails. \<^verbatim>\<open>setTimeout\<close> stands after
  \<^verbatim>\<open>execSync\<close> inside the \<^verbatim>\<open>try\<close> block: a failing command jumps to the
  handler, which only logs. Connecting the keyboard with a failing command logs the error
  and schedules nothing.
\<close>

theorem toggleConnection_failure_counterexample:
  "effects paired = []
   \<and> effects (toggleConnection (Some ''CC:DD'') False False paired) =
       [ExecSync ''/opt/homebrew/bin/blueutil --connect CC:DD'',
        ConsoleError ''Error toggling connection:'' ExecError]
   \<and> timers (effects (toggleConnection (Some ''CC:DD'') False False paired)) = []"
  by code_simp

text \<open>
  C3, amended: a call of \<^verbatim>\<open>toggleConnection\<close> schedules a re-fetch of the known
  devices, after 1000 ms, exactly when the tool path is set and the control command
  succeeds. When the path is not set or the command fails, the failure is logged to the
  console and no re-fetch is scheduled. The known devices are not touched by the call
  itself.
\<close>

theorem toggleConnection_refetch:
  "timers (effects (toggleConnection addr isConnected succeeds st))
     = timers (effects st) @ (if blueutilPath st \<noteq> [] \<and> succeeds then [1000] else [])
   \<and> (blueutilPath st = [] \<or> \<not> succeeds \<longrightarrow>
        (\<exists>e. last (effects (toggleConnection addr isConnected succeeds st))
               = ConsoleError ''Error toggling connection:'' e))
   \<and> allDevices (toggleConnection addr isConnected succeeds st) = allDevices st"
proof (cases "blueutilPath st = []")
  case True
  then have "toggleConnection addr isConnected succeeds st =
      st\<lparr>effects := effects st @
        [ConsoleError ''Error toggling connection:'' (Error ''blueutil path not set'')]\<rparr>"
    by (simp add: toggleConnection_def)
  with True show ?thesis
    by (simp add: timers_append timers_def)
next
  case False
  let ?cmd = "blueutilPath st @ '' '' @ (if isConnected then ''--disconnect'' else ''--connect'')
      @ '' '' @ template addr"
  show ?thesis
  proof (cases succeeds)
    case True
    with False have "toggleConnection addr isConnected succeeds st =
        st\<lparr>effects := effects st @ [ExecSync ?cmd, SetTimeout_refreshDevices 1000]\<rparr>"
      by (simp add: toggleConnection_def Let_def)
    with True False show ?thesis
      by (simp add: timers_append timers_def)
  next
    case failed: False
    with False have "toggleConnection addr isConnected succeeds st =
        st\<lparr>effects := effects st @
          [ExecSync ?cmd, ConsoleError ''Error toggling connection:'' ExecError]\<rparr>"
      by (simp add: toggleConnection_def Let_def)
    with failed show ?thesis
      by (simp add: timers_append timers_def)
  qed
qed

theorem toggleConnection_refetch_witness:
  "timers (effects (toggleConnection (Some ''CC:DD'') False True paired)) = [1000]
   \<and> timers (effects (toggleConnection (Some ''CC:DD'') False False paired)) = []
   \<and> timers (effects (toggleConnection (Some ''AA:BB'') True True initial)) = []"
proof -
  have p: "blueutilPath paired \<noteq> []" "timers (effects paired) = []"
    "blueutilPath initial = []" "timers (effects initial) = []"
    by code_simp+
  from toggleConnection_refetch [of "Some ''CC:DD''" False True paired]
    toggleConnection_refetch [of "Some ''CC:DD''" False False paired]
    toggleConnection_refetch [of "Some ''AA:BB''" True True initial] p
  show ?thesis by simp
qed

subsection \<open>The displayed devices\<close>

lemma slice_take: "0 \<le> n \<Longrightarrow> slice xs 0 n = take (nat n) xs"
  by (simp add: slice_def Let_def min_def)

text \<open>
  C8: with \<^verbatim>\<open>maxDevices\<close> in the range 1 to 20 that the manifest declares (default
  5), an empty query shows the first \<^verbatim>\<open>maxDevices\<close> known devices, unfiltered, and a
  non-empty query shows every known device that matches, with no truncation.
\<close>

theorem filteredDevices_empty_query_truncates:
  assumes "maxDevices_minimum \<le> maxDevices" and "maxDevices \<le> maxDevices_maximum"
  shows "(searchText st = [] \<longrightarrow>
            filteredDevices maxDevices st = take (nat maxDevices) (allDevices st))
     \<and> (searchText st \<noteq> [] \<longrightarrow>
            filteredDevices maxDevices st
              = filter (\<lambda>d. fuzzySearch d (searchText st)) (allDevices st))
     \<and> maxDevices_default = 5 \<and> maxDevices_minimum = 1 \<and> maxDevices_maximum = 20"
proof -
  from assms have "0 \<le> maxDevices"
    by (simp add: maxDevices_minimum_def)
  then have "slice (allDevices st) 0 maxDevices = take (nat maxDevices) (allDevices st)"
    by (rule slice_take)
  then show ?thesis
    by (simp add: filteredDevices_def maxDevices_default_def maxDevices_minimum_def
        maxDevices_maximum_def)
qed

theorem filteredDevices_empty_query_truncates_witness:
  "filteredDevices maxDevices_default many = [bose, bose, bose, keyboard, keyboard]
   \<and> filteredDevices 1 (many\<lparr>searchText := ''key''\<rparr>) = [keyboard, keyboard, keyboard]"
proof -
  have p: "maxDevices_minimum \<le> maxDevices_default" "maxDevices_default \<le> maxDevices_maximum"
    "maxDevices_minimum \<le> 1" "1 \<le> maxDevices_maximum"
    by code_simp+
  have q: "searchText many = []"
    "take (nat maxDevices_default) (allDevices many) = [bose, bose, bose, keyboard, keyboard]"
    "searchText (many\<lparr>searchText := ''key''\<rparr>) \<noteq> []"
    "filter (\<lambda>d. fuzzySearch d (searchText (many\<lparr>searchText := ''key''\<rparr>)))
       (allDevices (many\<lparr>searchText := ''key''\<rparr>)) = [keyboard, keyboard, keyboard]"
    by code_simp+
  from filteredDevices_empty_query_truncates [OF p(1,2), of many]
    filteredDevices_empty_query_truncates [OF p(3,4), of "many\<lparr>searchText := ''key''\<rparr>"] q
  show ?thesis by simp
qed

text \<open>
  C10: whatever the query and whatever \<^verbatim>\<open>maxDevices\<close>, the section of discovered
  devices shows every discovered device, in order; the search filter and the truncation
  reach the section of paired devices only.
\<close>

theorem discovered_section_in_full:
  "section_of ''Discovered Devices'' (Command maxDevices (st\<lparr>searchText := q\<rparr>))
     = map discoveredItem (discoveredDevices st)
   \<and> section_of ''Paired Devices'' (Command maxDevices (st\<lparr>searchText := q\<rparr>))
     = map pairedItem (filteredDevices maxDevices (st\<lparr>searchText := q\<rparr>))"
proof (cases "discoveredDevices st = []")
  case True
  then have "Command maxDevices (st\<lparr>searchText := q\<rparr>) =
      [ListSection ''Paired Devices''
         (map pairedItem (filteredDevices maxDevices (st\<lparr>searchText := q\<rparr>)))]"
    by (simp add: Command_def)
  with True show ?thesis
    by (simp add: section_of_def)
next
  case False
  then have "Command maxDevices (st\<lparr>searchText := q\<rparr>) =
      [ListSection ''Discovered Devices'' (map discoveredItem (discoveredDevices st)),
       ListSection ''Paired Devices''
         (map pairedItem (filteredDevices maxDevices (st\<lparr>searchText := q\<rparr>)))]"
    by (simp add: Command_def)
  then show ?thesis
    by (simp add: section_of_def)
qed

theorem discovered_section_in_full_witness:
  "section_of ''Discovered Devices''
     (Command 1 (startDiscovery (Parsed found) paired\<lparr>searchText := ''zzz''\<rparr>))
     = [ListItem (Some ''11:22'') ''Unknown Device'' ''Available to pair''
          (Some ''Signal: -60dBm'')]
   \<and> section_of ''Paired Devices''
     (Command 1 (startDiscovery (Parsed found) paired\<lparr>searchText := ''zzz''\<rparr>)) = []"
proof -
  have "map discoveredItem (discoveredDevices (startDiscovery (Parsed found) paired))
      = [ListItem (Some ''11:22'') ''Unknown Device'' ''Available to pair''
          (Some ''Signal: -60dBm'')]"
    "map pairedItem
       (filteredDevices 1 (startDiscovery (Parsed found) paired\<lparr>searchText := ''zzz''\<rparr>)) = []"
    by code_simp+
  with discovered_section_in_full
    [where maxDevices = 1 and st = "startDiscovery (Parsed found) paired" and q = "''zzz''"]
  show ?thesis by simp
qed

end
